theory Spec2Isabelle
  imports Complex_Main "HOL-Library.Multiset" "HOL-Library.AList"
begin

section \<open>SimpleVolumeViewer: the algorithmic core of \<^verbatim>\<open>img_block_viewer.py\<close>\<close>

text \<open>
  The development embeds the functions of \<^verbatim>\<open>src/img_block_viewer.py\<close> that carry
  logic of their own: the name allocator, the configuration merge, the skeleton
  decomposition, the transfer-function rescaling, the ray picker, the point set holder
  and object removal. Python exceptions are values of \<open>error\<close>; a function that can
  raise returns \<open>error + 'a\<close> with \<open>Inl\<close> the exception. NumPy \<^verbatim>\<open>float64\<close> values
  are idealised as \<open>real\<close>; integer arrays hold \<open>int\<close>.
\<close>

subsection \<open>Exceptions and indexing\<close>

datatype error = ValueError | IndexError | KeyError | TypeError | NameError

text \<open>
  Subscripts of a Python list or a one-dimensional NumPy array of length \<open>n\<close>: the
  indices \<open>0, ..., n - 1\<close> stand for themselves, \<open>-n, ..., -1\<close> count from the end, and
  any other index raises \<^verbatim>\<open>IndexError\<close>.
\<close>

definition np_index :: "nat \<Rightarrow> int \<Rightarrow> nat option" where
  "np_index n i =
     (if 0 \<le> i \<and> i < int n then Some (nat i)
      else if - int n \<le> i \<and> i < 0 then Some (nat (int n + i))
      else None)"

definition np_get :: "'a list \<Rightarrow> int \<Rightarrow> error + 'a" where
  "np_get xs i = (case np_index (length xs) i of None \<Rightarrow> Inl IndexError | Some j \<Rightarrow> Inr (xs ! j))"

definition np_set :: "'a list \<Rightarrow> int \<Rightarrow> 'a \<Rightarrow> error + 'a list" where
  "np_set xs i v = (case np_index (length xs) i of None \<Rightarrow> Inl IndexError | Some j \<Rightarrow> Inr (xs[j := v]))"

subsection \<open>\<^verbatim>\<open>GetNonconflitName\<close> (lines 273--279)\<close>

text \<open>
  \<^verbatim>\<open>
  def GetNonconflitName(prefix, name_set):
      i = 1
      name = prefix
      while name in name_set:
          name = prefix + ".%.3d"%i
          i += 1
      return name
  \<close>
  The counter starts at 1 and only grows, so it is a \<open>nat\<close>. \<^verbatim>\<open>"%.3d" % i\<close> prints the
  decimal digits of \<open>i\<close>, padded on the left with zeros to at least three digits.
\<close>

definition digit_char :: "nat \<Rightarrow> char" where
  "digit_char d = ''0123456789'' ! d"

fun dec_digits :: "nat \<Rightarrow> string" where
  "dec_digits n = (if n < 10 then [digit_char n] else dec_digits (n div 10) @ [digit_char (n mod 10)])"

definition fmt_3d :: "nat \<Rightarrow> string" where
  "fmt_3d i = (let ds = dec_digits i in replicate (3 - length ds) (CHR ''0'') @ ds)"

text \<open>
  Reading a decimal string back; it shows below that \<open>fmt_3d\<close> never prints two
  counters alike.
\<close>

fun digits_val :: "string \<Rightarrow> nat" where
  "digits_val s = foldl (\<lambda>a c. 10 * a + (of_char c - 48)) 0 s"

text \<open>
  The loop. It need not return when \<open>name_set\<close> is infinite, so it is a partial function
  into \<open>option\<close>: \<open>None\<close> is "does not return".
\<close>

partial_function (option) name_loop :: "string \<Rightarrow> string set \<Rightarrow> nat \<Rightarrow> string \<Rightarrow> string option" where
  "name_loop prefix name_set i name =
     (if name \<in> name_set then name_loop prefix name_set (i + 1) (prefix @ ''.'' @ fmt_3d i)
      else Some name)"

declare name_loop.simps [code]

definition GetNonconflitName :: "string \<Rightarrow> string set \<Rightarrow> string option" where
  "GetNonconflitName prefix name_set = name_loop prefix name_set 1 prefix"

subsection \<open>\<^verbatim>\<open>MergeFullDict\<close> (lines 281--302)\<close>

text \<open>
  A configuration node is what \<^verbatim>\<open>json.loads\<close> produces. A \<^verbatim>\<open>dict\<close> keeps its keys in
  insertion order, so it is an association list with distinct keys; \<^verbatim>\<open>d[key] = value\<close>
  is \<open>AList.update\<close> (replace in place, or append a new key at the end).
\<close>

datatype pyval =
    PNone
  | PBool bool
  | PInt int
  | PFloat real
  | PStr string
  | PList "pyval list"
  | PDict "(string \<times> pyval) list"

datatype pytype = TNoneType | TBool | TInt | TFloat | TStr | TList | TDict

fun py_type :: "pyval \<Rightarrow> pytype" where
  "py_type PNone = TNoneType"
| "py_type (PBool b) = TBool"
| "py_type (PInt i) = TInt"
| "py_type (PFloat x) = TFloat"
| "py_type (PStr s) = TStr"
| "py_type (PList xs) = TList"
| "py_type (PDict kvs) = TDict"

definition mismatch_warning :: string where
  "mismatch_warning = ''Warning: DeepUpdate() key type mismatch! value discard.''"

text \<open>
  \<^verbatim>\<open>
  def DeepUpdate(d_contain, d_update):
      for key, value in d_update.items():
          if key not in d_contain:
              d_contain[key] = value
          else:  # key in d_contain
              if isinstance(value, dict):
                  DeepUpdate(d_contain[key], value)
              else:  # overwirte
                  # simple sanity check: data type must agree
                  if type(d_contain[key]) == type(value):
                      d_contain[key] = value
                  else:
                      dbg_print(2, "DeepUpdate()", "key type mismatch! value discard.")
      return d_contain
  \<close>
  The function mutates \<open>d_contain\<close> in place, so the model returns the container as it
  is when the call ends, also when it ends in an exception, together with the lines
  printed by \<^verbatim>\<open>dbg_print\<close> (level 2 is below the module's \<^verbatim>\<open>debug_level = 4\<close>, so the
  warning is printed). The second argument is the list of items that the loop still has
  to visit. When \<open>d_contain\<close> is not a \<^verbatim>\<open>dict\<close> and an item is left, the first statement
  of the loop body raises \<^verbatim>\<open>TypeError\<close>: \<^verbatim>\<open>key not in d_contain\<close> is not defined on
  \<^verbatim>\<open>None\<close>, a \<^verbatim>\<open>bool\<close>, an \<^verbatim>\<open>int\<close> or a \<^verbatim>\<open>float\<close>, and on a \<^verbatim>\<open>str\<close> or a \<^verbatim>\<open>list\<close>
  the membership test succeeds but the subscript with a string key that follows in
  either branch raises.
\<close>

fun DeepUpdate :: "pyval \<Rightarrow> (string \<times> pyval) list \<Rightarrow> string list \<Rightarrow> (error + unit) \<times> pyval \<times> string list" where
  "DeepUpdate d_contain [] printed = (Inr (), d_contain, printed)"
| "DeepUpdate d_contain ((key, value) # d_update) printed =
     (case d_contain of
        PDict items \<Rightarrow>
          (case map_of items key of
             None \<Rightarrow> DeepUpdate (PDict (AList.update key value items)) d_update printed
           | Some old \<Rightarrow>
               (case value of
                  PDict sub \<Rightarrow>
                    (case DeepUpdate old sub printed of
                       (Inl e, old', printed') \<Rightarrow> (Inl e, PDict (AList.update key old' items), printed')
                     | (Inr u, old', printed') \<Rightarrow>
                         DeepUpdate (PDict (AList.update key old' items)) d_update printed')
                | _ \<Rightarrow>
                    if py_type old = py_type value
                    then DeepUpdate (PDict (AList.update key value items)) d_update printed
                    else DeepUpdate d_contain d_update (printed @ [mismatch_warning])))
      | _ \<Rightarrow> (Inl TypeError, d_contain, printed))"

text \<open>\<^verbatim>\<open>MergeFullDict\<close> runs \<^verbatim>\<open>DeepUpdate\<close> and returns \<open>d_contain\<close>.\<close>

definition MergeFullDict :: "pyval \<Rightarrow> (string \<times> pyval) list \<Rightarrow> string list \<Rightarrow> (error + pyval) \<times> pyval \<times> string list" where
  "MergeFullDict d_contain d_update printed =
     (case DeepUpdate d_contain d_update printed of
        (Inl e, d, printed') \<Rightarrow> (Inl e, d, printed')
      | (Inr u, d, printed') \<Rightarrow> (Inr d, d, printed'))"

subsection \<open>\<^verbatim>\<open>SplitSWCTree\<close> (lines 470--503)\<close>

text \<open>
  The input \<^verbatim>\<open>tr[0]\<close> is an integer array with one row \<open>(id, parent_id, type)\<close> per node.
  The function works on row indices: \<^verbatim>\<open>arr_full\<close> maps a node id to the index of its row,
  and its last cell, reached by the index \<open>-1\<close>, holds \<open>-1\<close> for "no parent".
\<close>

text \<open>\<^verbatim>\<open>arr_full[tr_idx[:,0]] = np.arange(n_id)\<close>: row \<open>r\<close> writes \<open>r\<close> at its id.\<close>

fun assign_arange :: "int list \<Rightarrow> int list \<Rightarrow> nat \<Rightarrow> error + int list" where
  "assign_arange arr [] r = Inr arr"
| "assign_arange arr (i # ids) r =
     (case np_set arr i (int r) of
        Inl e \<Rightarrow> Inl e
      | Inr arr' \<Rightarrow> assign_arange arr' ids (Suc r))"

text \<open>\<^verbatim>\<open>arr_full[idx]\<close> for an index array \<open>idx\<close>.\<close>

fun take_all :: "int list \<Rightarrow> int list \<Rightarrow> error + int list" where
  "take_all arr [] = Inr []"
| "take_all arr (i # idx) =
     (case np_get arr i of
        Inl e \<Rightarrow> Inl e
      | Inr v \<Rightarrow> (case take_all arr idx of Inl e \<Rightarrow> Inl e | Inr vs \<Rightarrow> Inr (v # vs)))"

text \<open>
  \<^verbatim>\<open>np.histogram(a, bins=np.arange(n))\<close>: the array \<open>0, 1, ..., n - 1\<close> gives the edges of
  \<open>n - 1\<close> bins. Bin \<open>j\<close> counts the values in \<open>[j, j + 1)\<close>, except the last bin
  (\<open>j = n - 2\<close>), which is closed on the right and counts the values in \<open>[n - 2, n - 1]\<close>.
  Values outside \<open>[0, n - 1]\<close> are not counted.
\<close>

definition histogram_arange :: "int list \<Rightarrow> nat \<Rightarrow> int list" where
  "histogram_arange a n =
     map (\<lambda>j. int (length (filter (\<lambda>x. int j \<le> x \<and> (x < int j + 1 \<or> (Suc j = n - 1 \<and> x = int j + 1))) a)))
       [0..<n - 1]"

text \<open>
  The inner loop, from the state \<open>(i, filament)\<close>:
  \<^verbatim>\<open>
        while n_child[i] == 1 and i != -1:
            filament.append(i)
            i = tr_idx[i, 1]  # parent
  \<close>
  \<^verbatim>\<open>n_child[i]\<close> is read before \<open>i\<close> is compared with \<open>-1\<close>. On parent links that form
  a cycle the loop does not end: the result \<open>None\<close>.
\<close>

partial_function (option) walk_up :: "int list \<Rightarrow> int list \<Rightarrow> int \<Rightarrow> int list \<Rightarrow> (error + int \<times> int list) option" where
  "walk_up n_child parent i filament =
     (case np_get n_child i of
        Inl e \<Rightarrow> Some (Inl e)
      | Inr c \<Rightarrow>
          if c = 1 \<and> i \<noteq> - 1 then
            (case np_get parent i of
               Inl e \<Rightarrow> Some (Inl e)
             | Inr i' \<Rightarrow> walk_up n_child parent i' (filament @ [i]))
          else Some (Inr (i, filament)))"

declare walk_up.simps [code]

text \<open>One pass of the body of \<^verbatim>\<open>for eid in id_bounds\<close>: the filament of \<open>eid\<close>, reversed.\<close>

definition filament_of :: "int list \<Rightarrow> int list \<Rightarrow> nat \<Rightarrow> (error + int list) option" where
  "filament_of n_child parent eid =
     (case np_get parent (int eid) of
        Inl e \<Rightarrow> Some (Inl e)
      | Inr i \<Rightarrow>
          (case walk_up n_child parent i [int eid] of
             None \<Rightarrow> None
           | Some (Inl e) \<Rightarrow> Some (Inl e)
           | Some (Inr (i', filament)) \<Rightarrow>
               Some (Inr (rev (if i' \<noteq> - 1 then filament @ [i'] else filament)))))"

fun collect_processes :: "int list \<Rightarrow> int list \<Rightarrow> nat list \<Rightarrow> (error + int list list) option" where
  "collect_processes n_child parent [] = Some (Inr [])"
| "collect_processes n_child parent (eid # id_bounds) =
     (case filament_of n_child parent eid of
        None \<Rightarrow> None
      | Some (Inl e) \<Rightarrow> Some (Inl e)
      | Some (Inr f) \<Rightarrow>
          (case collect_processes n_child parent id_bounds of
             None \<Rightarrow> None
           | Some (Inl e) \<Rightarrow> Some (Inl e)
           | Some (Inr fs) \<Rightarrow> Some (Inr (f # fs))))"

text \<open>
  The ids are \<^verbatim>\<open>int32\<close> values, and so is \<^verbatim>\<open>max_id+2\<close> (NumPy 2 keeps the type of the array
  element): beyond \<open>2\<^sup>3\<^sup>1 - 1\<close> it wraps around.
\<close>

definition int32_wrap :: "int \<Rightarrow> int" where
  "int32_wrap x = (x + 2147483648) mod 4294967296 - 2147483648"

text \<open>
  The whole function. \<^verbatim>\<open>max\<close> of no rows raises \<^verbatim>\<open>ValueError\<close>, as does \<^verbatim>\<open>np.zeros\<close> of a
  negative size. \<^verbatim>\<open>id_bounds = np.nonzero(n_child-1)[0]\<close> lists, in increasing order, the
  indices \<open>j\<close> of \<^verbatim>\<open>n_child\<close> with \<open>n_child[j] \<noteq> 1\<close>.
\<close>

definition SplitSWCTree :: "(int \<times> int \<times> int) list \<Rightarrow> (error + int list list) option" where
  "SplitSWCTree tr =
     (if tr = [] then Some (Inl ValueError)
      else
        let ids = map fst tr;
            parent_ids = map (fst \<circ> snd) tr;
            max_id = fold max (tl ids) (hd ids);
            n_id = length tr
        in if int32_wrap (max_id + 2) < 0 then Some (Inl ValueError)
           else
             (case np_set (replicate (nat (int32_wrap (max_id + 2))) 0) (- 1) (- 1) of
                Inl e \<Rightarrow> Some (Inl e)
              | Inr arr0 \<Rightarrow>
             (case assign_arange arr0 ids 0 of
                Inl e \<Rightarrow> Some (Inl e)
              | Inr arr_full \<Rightarrow>
             (case take_all arr_full ids of
                Inl e \<Rightarrow> Some (Inl e)
              | Inr idx \<Rightarrow>
             (case take_all arr_full parent_ids of
                Inl e \<Rightarrow> Some (Inl e)
              | Inr parent \<Rightarrow>
                  let n_child = histogram_arange (tl parent) n_id;
                      id_bounds = filter (\<lambda>j. n_child ! j - 1 \<noteq> 0) [0..<length n_child]
                  in collect_processes n_child parent id_bounds)))))"

subsection \<open>Transfer-function rescaling (lines 505--560)\<close>

text \<open>
  The toolkit's curve objects (\<^verbatim>\<open>vtkPiecewiseFunction\<close>, \<^verbatim>\<open>vtkColorTransferFunction\<close>) are
  not part of the repository. The functions below use three of their methods, and the
  model takes a curve to be the array of its control points, which the toolkit keeps
  ordered by position: \<^verbatim>\<open>GetSize()\<close> is the length, \<^verbatim>\<open>GetNodeValue(k, out)\<close> copies node
  \<open>k\<close>, and \<^verbatim>\<open>SetNodeValue(k, val)\<close> overwrites node \<open>k\<close> and, when the write changed the
  node's position, sorts the nodes by position again (a stable sort). A node is its
  position followed by the remaining fields: \<open>(x, y, midpoint, sharpness)\<close> for the
  opacity curve, \<open>(x, r, g, b, midpoint, sharpness)\<close> for the colour curve.

  The authored curves are the JSON lists \<^verbatim>\<open>prop_conf['opacity_transfer_function']['AddPoint']\<close>
  and \<^verbatim>\<open>prop_conf['color_transfer_function']['AddRGBPoint']\<close>; a missing key is \<open>None\<close>
  here and raises \<^verbatim>\<open>KeyError\<close> when read. A property built with \<^verbatim>\<open>copy_from\<close> carries
  \<^verbatim>\<open>ref_prop\<close>, the property it was copied from.
\<close>

type_synonym otf_node = "real \<times> real \<times> real \<times> real"
type_synonym ctf_node = "real \<times> real \<times> real \<times> real \<times> real \<times> real"

record prop_conf_t =
  otf_AddPoint :: "real list list option"
  ctf_AddRGBPoint :: "real list list option"

datatype vprop =
  VProp (ScalarOpacity: "otf_node list") (RGBTransferFunction: "ctf_node list")
        (prop_conf: prop_conf_t) (ref_prop: "vprop option")

text \<open>
  Where the authored points are read from:
  \<^verbatim>\<open>
    if hasattr(obj_prop, 'ref_prop'):
        obj_prop = obj_prop.ref_prop
    otf_v = obj_prop.prop_conf['opacity_transfer_function']['AddPoint']
  \<close>
  and likewise \<^verbatim>\<open>['color_transfer_function']['AddRGBPoint']\<close> for the colour curve.
\<close>

definition authored_otf :: "vprop \<Rightarrow> real list list option" where
  "authored_otf obj_prop =
     otf_AddPoint (prop_conf (case ref_prop obj_prop of Some r \<Rightarrow> r | None \<Rightarrow> obj_prop))"

definition authored_ctf :: "vprop \<Rightarrow> real list list option" where
  "authored_ctf obj_prop =
     ctf_AddRGBPoint (prop_conf (case ref_prop obj_prop of Some r \<Rightarrow> r | None \<Rightarrow> obj_prop))"

text \<open>
  The toolkit's \<^verbatim>\<open>SetNodeValue\<close>, as described above. An index out of range changes
  nothing (the toolkit reports an error and raises no exception).
\<close>

definition SetNodeValue :: "nat \<Rightarrow> real \<times> 'r \<Rightarrow> (real \<times> 'r) list \<Rightarrow> (real \<times> 'r) list" where
  "SetNodeValue index val nodes =
     (if index < length nodes
      then if fst (nodes ! index) \<noteq> fst val
           then sort_key fst (nodes[index := val])
           else nodes[index := val]
      else nodes)"

text \<open>
  The second loop of both functions, over the indices \<open>ks\<close> still to visit:
  \<^verbatim>\<open>
    for k in range(pf.GetSize()):
        v[k][0] = otf_s * otf_v[k][0]
        pf.SetNodeValue(k, v[k])
  \<close>
  \<open>v\<close> holds the nodes as they were read before the loop, so \<open>v[k]\<close> keeps the fields
  of the node that was at index \<open>k\<close> then, whatever node is at index \<open>k\<close> when it is
  written. An \<^verbatim>\<open>IndexError\<close> from \<^verbatim>\<open>otf_v[k][0]\<close> leaves the curve with the nodes written
  so far.
\<close>

fun scale_nodes :: "real \<Rightarrow> real list list \<Rightarrow> (real \<times> 'r) list \<Rightarrow> nat list \<Rightarrow> (real \<times> 'r) list \<Rightarrow> (error + unit) \<times> (real \<times> 'r) list" where
  "scale_nodes s otf_v v [] pf = (Inr (), pf)"
| "scale_nodes s otf_v v (k # ks) pf =
     (case np_get otf_v (int k) of
        Inl e \<Rightarrow> (Inl e, pf)
      | Inr pt \<Rightarrow>
          (case np_get pt 0 of
             Inl e \<Rightarrow> (Inl e, pf)
           | Inr x \<Rightarrow> scale_nodes s otf_v v ks (SetNodeValue k (s * x, snd (v ! k)) pf)))"

text \<open>
  The scale argument is \<open>None\<close> for Python's \<^verbatim>\<open>None\<close>. With \<open>None\<close> the function returns
  the pair (authored points, current nodes); with a number it returns \<^verbatim>\<open>None\<close> after
  writing the curve. The second component is the property after the call.
\<close>

definition UpdatePropertyOTFScale :: "vprop \<Rightarrow> real option \<Rightarrow> (error + (real list list \<times> otf_node list) option) \<times> vprop" where
  "UpdatePropertyOTFScale obj_prop otf_s =
     (let pf = ScalarOpacity obj_prop
      in case authored_otf obj_prop of
           None \<Rightarrow> (Inl KeyError, obj_prop)
         | Some otf_v \<Rightarrow>
             let v = pf
             in (case otf_s of
                   None \<Rightarrow> (Inr (Some (otf_v, v)), obj_prop)
                 | Some s \<Rightarrow>
                     (case scale_nodes s otf_v v [0..<length pf] pf of
                        (Inl e, pf') \<Rightarrow>
                          (Inl e, VProp pf' (RGBTransferFunction obj_prop) (prop_conf obj_prop) (ref_prop obj_prop))
                      | (Inr u, pf') \<Rightarrow>
                          (Inr None, VProp pf' (RGBTransferFunction obj_prop) (prop_conf obj_prop) (ref_prop obj_prop)))))"

definition UpdatePropertyCTFScale :: "vprop \<Rightarrow> real option \<Rightarrow> (error + (real list list \<times> ctf_node list) option) \<times> vprop" where
  "UpdatePropertyCTFScale obj_prop ctf_s =
     (let ctf = RGBTransferFunction obj_prop
      in case authored_ctf obj_prop of
           None \<Rightarrow> (Inl KeyError, obj_prop)
         | Some ctf_v \<Rightarrow>
             let v = ctf
             in (case ctf_s of
                   None \<Rightarrow> (Inr (Some (ctf_v, v)), obj_prop)
                 | Some s \<Rightarrow>
                     (case scale_nodes s ctf_v v [0..<length ctf] ctf of
                        (Inl e, ctf') \<Rightarrow>
                          (Inl e, VProp (ScalarOpacity obj_prop) ctf' (prop_conf obj_prop) (ref_prop obj_prop))
                      | (Inr u, ctf') \<Rightarrow>
                          (Inr None, VProp (ScalarOpacity obj_prop) ctf' (prop_conf obj_prop) (ref_prop obj_prop)))))"


text \<open>
  \<^verbatim>\<open>a / b\<close> with \<open>a\<close> a \<^verbatim>\<open>float64\<close>: a zero divisor does not raise, it gives an infinity or
  a NaN, which is no real number: \<open>None\<close>.
\<close>

definition float_div :: "real \<Rightarrow> real \<Rightarrow> real option" where
  "float_div a b = (if b = 0 then None else Some (a / b))"

text \<open>\<^verbatim>\<open>o_v[-1][0] / otf_v[-1][0]\<close>: last node's position over last authored position.\<close>

definition last_ratio :: "(real \<times> 'r) list \<Rightarrow> real list list \<Rightarrow> error + real option" where
  "last_ratio o_v otf_v =
     (case np_get o_v (- 1) of
        Inl e \<Rightarrow> Inl e
      | Inr nd \<Rightarrow>
          (case np_get otf_v (- 1) of
             Inl e \<Rightarrow> Inl e
           | Inr pt \<Rightarrow>
               (case np_get pt 0 of
                  Inl e \<Rightarrow> Inl e
                | Inr x \<Rightarrow> Inr (float_div (fst nd) x))))"

text \<open>
  \<^verbatim>\<open>
  def GetColorScale(obj_prop):
      otf_v, o_v = UpdatePropertyOTFScale(obj_prop, None)
      ctf_v, c_v = UpdatePropertyCTFScale(obj_prop, None)
      return o_v[-1][0] / otf_v[-1][0], c_v[-1][0] / ctf_v[-1][0]
  \<close>
  Unpacking a returned \<^verbatim>\<open>None\<close> would raise \<^verbatim>\<open>TypeError\<close>.
\<close>

definition GetColorScale :: "vprop \<Rightarrow> (error + real option \<times> real option) \<times> vprop" where
  "GetColorScale obj_prop =
     (case UpdatePropertyOTFScale obj_prop None of
        (Inl e, p1) \<Rightarrow> (Inl e, p1)
      | (Inr None, p1) \<Rightarrow> (Inl TypeError, p1)
      | (Inr (Some (otf_v, o_v)), p1) \<Rightarrow>
          (case UpdatePropertyCTFScale p1 None of
             (Inl e, p2) \<Rightarrow> (Inl e, p2)
           | (Inr None, p2) \<Rightarrow> (Inl TypeError, p2)
           | (Inr (Some (ctf_v, c_v)), p2) \<Rightarrow>
               (case last_ratio o_v otf_v of
                  Inl e \<Rightarrow> (Inl e, p2)
                | Inr so \<Rightarrow>
                    (case last_ratio c_v ctf_v of
                       Inl e \<Rightarrow> (Inl e, p2)
                     | Inr sc \<Rightarrow> (Inr (so, sc), p2)))))"

text \<open>
  \<^verbatim>\<open>SetColorScale(obj_prop, scale)\<close>: \<open>scale\<close> is a number, used for both curves, or a pair
  \<open>[otf_s, ctf_s]\<close>.
\<close>

datatype scale_arg = Scalar real | Pair real real

definition SetColorScale :: "vprop \<Rightarrow> scale_arg \<Rightarrow> (error + unit) \<times> vprop" where
  "SetColorScale obj_prop scale =
     (let (otf_s, ctf_s) = (case scale of Scalar s \<Rightarrow> (s, s) | Pair a b \<Rightarrow> (a, b))
      in case UpdatePropertyOTFScale obj_prop (Some otf_s) of
           (Inl e, p1) \<Rightarrow> (Inl e, p1)
         | (Inr r, p1) \<Rightarrow>
             (case UpdatePropertyCTFScale p1 (Some ctf_s) of
                (Inl e, p2) \<Rightarrow> (Inl e, p2)
              | (Inr r', p2) \<Rightarrow> (Inr (), p2)))"

subsection \<open>\<^verbatim>\<open>PointPicker.PickAt\<close> (lines 635--668)\<close>

text \<open>
  \<^verbatim>\<open>self.p\<close> is a \<open>3 \<times> N\<close> array, one column per point: a list of points here.
  Of the \<open>4 \<times> 4\<close> matrix \<^verbatim>\<open>self.cam_m\<close> the function reads the rotation block
  \<^verbatim>\<open>cam_m[0:3,0:3]\<close>, kept as its three rows, and the translation column \<^verbatim>\<open>cam_m[0:3,3:4]\<close>.
\<close>

type_synonym vec3 = "real \<times> real \<times> real"

record PointPicker =
  self_p :: "vec3 list"
  self_cam_rot :: "vec3 \<times> vec3 \<times> vec3"
  self_cam_trans :: vec3
  self_screen_dims :: "real \<times> real"
  self_pixel_scale :: "real \<times> real"

fun dot3 :: "vec3 \<Rightarrow> vec3 \<Rightarrow> real" where
  "dot3 (a, b, c) (x, y, z) = a * x + b * y + c * z"

fun sub3 :: "vec3 \<Rightarrow> vec3 \<Rightarrow> vec3" where
  "sub3 (a, b, c) (x, y, z) = (a - x, b - y, c - z)"

fun scale3 :: "vec3 \<Rightarrow> real \<Rightarrow> vec3" where
  "scale3 (a, b, c) t = (a * t, b * t, c * t)"

fun norm3 :: "vec3 \<Rightarrow> real" where
  "norm3 (a, b, c) = sqrt (a\<^sup>2 + b\<^sup>2 + c\<^sup>2)"

text \<open>\<^verbatim>\<open>M.T @ w\<close> for the matrix with rows \<open>r0, r1, r2\<close>.\<close>

fun transpose_times :: "vec3 \<times> vec3 \<times> vec3 \<Rightarrow> vec3 \<Rightarrow> vec3" where
  "transpose_times ((a0, a1, a2), (b0, b1, b2), (c0, c1, c2)) (x, y, z) =
     (a0 * x + b0 * y + c0 * z, a1 * x + b1 * y + c1 * z, a2 * x + b2 * y + c2 * z)"

text \<open>
  \<^verbatim>\<open>M @ w\<close>, and what makes \<open>M\<close> a rotation block: its rows have length one and are
  perpendicular to each other. Both are used to state what the origin and the direction
  of the ray are; the function itself does not compute them.
\<close>

fun mat_times :: "vec3 \<times> vec3 \<times> vec3 \<Rightarrow> vec3 \<Rightarrow> vec3" where
  "mat_times (r0, r1, r2) w = (dot3 r0 w, dot3 r1 w, dot3 r2 w)"

fun rows_orthonormal :: "vec3 \<times> vec3 \<times> vec3 \<Rightarrow> bool" where
  "rows_orthonormal (r0, r1, r2) \<longleftrightarrow>
     dot3 r0 r0 = 1 \<and> dot3 r1 r1 = 1 \<and> dot3 r2 r2 = 1 \<and>
     dot3 r0 r1 = 0 \<and> dot3 r0 r2 = 0 \<and> dot3 r1 r2 = 0"

text \<open>Camera position \<open>o\<close> and ray direction \<open>v\<close> in world coordinates.\<close>

definition ray_origin :: "PointPicker \<Rightarrow> vec3" where
  "ray_origin self = scale3 (transpose_times (self_cam_rot self) (self_cam_trans self)) (- 1)"

definition ray_direction :: "PointPicker \<Rightarrow> real \<times> real \<Rightarrow> vec3" where
  "ray_direction self posxy =
     (let posxy_cam =
            ((fst posxy - fst (self_screen_dims self) / 2) * fst (self_pixel_scale self),
             (snd posxy - snd (self_screen_dims self) / 2) * snd (self_pixel_scale self))
      in transpose_times (self_cam_rot self) (fst posxy_cam, snd posxy_cam, - 1))"

text \<open>
  Per point: \<^verbatim>\<open>t = (v.T @ u) / (v.T @ v)\<close>, \<^verbatim>\<open>dist = norm(u - v * t)\<close> and
  \<^verbatim>\<open>angle_dist = dist / t\<close>, with \<open>u = p - o\<close>. Where NumPy divides by zero it gives an
  infinity or a NaN and HOL gives \<open>0\<close>; neither passes the test \<open>t > 0\<close> below, so the
  selection is the same.
\<close>

definition ray_t :: "vec3 \<Rightarrow> vec3 \<Rightarrow> vec3 \<Rightarrow> real" where
  "ray_t o' v pt = dot3 v (sub3 pt o') / dot3 v v"

definition ray_dist :: "vec3 \<Rightarrow> vec3 \<Rightarrow> vec3 \<Rightarrow> real" where
  "ray_dist o' v pt = norm3 (sub3 (sub3 pt o') (scale3 v (ray_t o' v pt)))"

definition ray_angle_dist :: "vec3 \<Rightarrow> vec3 \<Rightarrow> vec3 \<Rightarrow> real" where
  "ray_angle_dist o' v pt = ray_dist o' v pt / ray_t o' v pt"

text \<open>\<^verbatim>\<open>np.argmin\<close>: the index of the first occurrence of the least value.\<close>

fun np_argmin :: "real list \<Rightarrow> nat" where
  "np_argmin [] = 0"
| "np_argmin [x] = 0"
| "np_argmin (x # y # ys) = (let k = np_argmin (y # ys) in if x \<le> (y # ys) ! k then 0 else Suc k)"

text \<open>
  The result is the pair \<^verbatim>\<open>(ID_selected, p[:, ID_selected])\<close>: an index and a point, or,
  when nothing is selected, an empty index array and an empty \<open>3 \<times> 0\<close> array.
\<close>

datatype pick_result = NoSelection | Selected nat vec3

definition PickAt :: "PointPicker \<Rightarrow> real \<times> real \<Rightarrow> pick_result" where
  "PickAt self posxy =
     (let cam_min_view_distance = 0;
          selection_angle_tol = 1 / 100;
          p = self_p self;
          o' = ray_origin self;
          v = ray_direction self posxy;
          t = map (ray_t o' v) p;
          angle_dist = map (ray_angle_dist o' v) p;
          ID_selected = filter (\<lambda>i. t ! i > cam_min_view_distance \<and> angle_dist ! i < selection_angle_tol)
                          [0..<length p]
      in if length ID_selected > 0
         then let angle_dist_selected = map (\<lambda>i. angle_dist ! i) ID_selected;
                  k = ID_selected ! np_argmin angle_dist_selected
              in Selected k (p ! k)
         else NoSelection)"

subsection \<open>\<^verbatim>\<open>PointSetHolder\<close> (lines 670--680)\<close>

text \<open>
  \<^verbatim>\<open>self.points\<close> is a two-dimensional array, kept as the list of its rows (three rows,
  one per coordinate; the points are its columns). \<^verbatim>\<open>np.append(a, b, axis=1)\<close> joins
  the rows of \<open>a\<close> and \<open>b\<close> pairwise. It raises \<^verbatim>\<open>ValueError\<close> when \<open>b\<close> is not a
  two-dimensional array, that is when its rows differ in length, and when the two arrays
  differ in their number of rows. \<^verbatim>\<open>self.range_map\<close> is a \<^verbatim>\<open>dict\<close>; nothing in the module says
  what its values are, so their type is a parameter.
  \<^verbatim>\<open>
    def AddPoints(self, points, name):
        self.points = np.append(self.points, points, axis=1)
        # TODO, maybe make it possible to find 'name' by point
  \<close>
\<close>

record 'r PointSetHolder =
  self_points :: "real list list"
  self_range_map :: "string \<rightharpoonup> 'r"

definition PointSetHolder_init :: "'r PointSetHolder" where
  "PointSetHolder_init = \<lparr>self_points = [[], [], []], self_range_map = Map.empty\<rparr>"

definition rectangular :: "'a list list \<Rightarrow> bool" where
  "rectangular rows \<longleftrightarrow> (\<forall>r \<in> set rows. length r = length (hd rows))"

definition AddPoints :: "'r PointSetHolder \<Rightarrow> real list list \<Rightarrow> string \<Rightarrow> error + 'r PointSetHolder" where
  "AddPoints self points name =
     (if rectangular points \<and> length points = length (self_points self)
      then Inr (self\<lparr>self_points := map2 (@) (self_points self) points\<rparr>)
      else Inl ValueError)"

subsection \<open>\<^verbatim>\<open>GUIControl.RemoveObjects\<close> (lines 1347--1355)\<close>

text \<open>
  Of the \<^verbatim>\<open>GUIControl\<close> object the function touches the registry \<^verbatim>\<open>scene_objects\<close>, the
  renderers (a \<^verbatim>\<open>dict\<close>, whose first key matters: an association list) and
  \<^verbatim>\<open>main_renderer_name\<close>; \<open>printed\<close> collects the lines written by \<^verbatim>\<open>dbg_print\<close>.
\<close>

record ('obj, 'ren) GUIControl =
  scene_objects :: "string \<rightharpoonup> 'obj"
  renderers :: "(string \<times> 'ren) list"
  main_renderer_name :: "string option"
  printed :: "string list"

text \<open>
  \<^verbatim>\<open>
    def GetMainRenderer(self):
        if self.main_renderer_name:
            return self.renderers[self.main_renderer_name]
        elif self.renderers:
            # first one is the main
            self.main_renderer_name = \
                next(iter(self.renderers.keys()))
            return self.renderers[self.main_renderer_name]
        return None
  \<close>
  \<^verbatim>\<open>None\<close> and the empty string are both false in the first test.
\<close>

definition GetMainRenderer :: "('obj, 'ren) GUIControl \<Rightarrow> (error + 'ren option) \<times> ('obj, 'ren) GUIControl" where
  "GetMainRenderer self =
     (case main_renderer_name self of
        Some (c # cs) \<Rightarrow>
          (case map_of (renderers self) (c # cs) of
             None \<Rightarrow> (Inl KeyError, self)
           | Some ren \<Rightarrow> (Inr (Some ren), self))
      | _ \<Rightarrow>
          (case renderers self of
             (k, ren) # rest \<Rightarrow> (Inr (Some ren), self\<lparr>main_renderer_name := Some k\<rparr>)
           | [] \<Rightarrow> (Inr None, self)))"

text \<open>
  The module never imports or assigns the name \<^verbatim>\<open>re\<close>, so evaluating it raises
  \<^verbatim>\<open>NameError\<close>.
\<close>

definition global_re :: "error + unit" where
  "global_re = Inl NameError"

text \<open>
  \<^verbatim>\<open>
    def RemoveObjects(self, name):
        if name not in self.scene_objects:
            dbg_print(2,"RemoveObjects(): object non-exist:", name)
            return
        obj = self.scene_objects[name]
        ren = self.GetMainRenderer()
        re.RemoveActor(obj)
        del self.scene_objects[name]
  \<close>
\<close>

definition RemoveObjects :: "('obj, 'ren) GUIControl \<Rightarrow> string \<Rightarrow> (error + unit) \<times> ('obj, 'ren) GUIControl" where
  "RemoveObjects self name =
     (case scene_objects self name of
        None \<Rightarrow>
          (Inr (), self\<lparr>printed := printed self @ [''Warning: RemoveObjects(): object non-exist: '' @ name]\<rparr>)
      | Some obj \<Rightarrow>
          (case GetMainRenderer self of
             (Inl e, self1) \<Rightarrow> (Inl e, self1)
           | (Inr ren, self1) \<Rightarrow>
               (case global_re of
                  Inl e \<Rightarrow> (Inl e, self1)
                | Inr re \<Rightarrow> (Inr (), self1\<lparr>scene_objects := (scene_objects self1)(name := None)\<rparr>))))"

subsection \<open>Example inputs\<close>

text \<open>
  The volume property that \<^verbatim>\<open>AddObjectProperty\<close> builds from \<^verbatim>\<open>DefaultSceneConfig\<close>
  (lines 126--145 and 1072--1091): the authored points with their positions multiplied
  by the scale 40, each node with the toolkit's default midpoint \<open>1/2\<close> and sharpness \<open>0\<close>.
\<close>

definition default_volume_property :: vprop where
  "default_volume_property =
     VProp [(800, 0, 1 / 2, 0), (10200, 1 / 5, 1 / 2, 0)]
           [(0, 0, 0, 0, 1 / 2, 0), (2560, 1, 0, 0, 1 / 2, 0), (5120, 0, 0, 1, 1 / 2, 0),
            (7680, 0, 1, 0, 1 / 2, 0), (10200, 0, 1 / 5, 0, 1 / 2, 0)]
           \<lparr>otf_AddPoint = Some [[20, 0], [255, 1 / 5]],
            ctf_AddRGBPoint = Some [[0, 0, 0, 0], [64, 1, 0, 0], [128, 0, 0, 1], [192, 0, 1, 0], [255, 0, 1 / 5, 0]]\<rparr>
           None"



text \<open>
  A picker on an \<open>800 \<times> 600\<close> screen whose camera is turned a quarter turn about the
  \<open>z\<close> axis and sits at \<open>(0, 0, 10)\<close>. For the pixel \<open>(800, 300)\<close> at the right edge the ray
  has the direction \<open>v = (0, 1, - 1)\<close>. The points are \<open>o - 3 v\<close> behind the camera, a point
  at distance \<open>1/2\<close> from the ray at \<open>t = 100\<close>, and \<open>o + 3 v\<close> on the ray.
\<close>

definition ex_picker :: PointPicker where
  "ex_picker =
     \<lparr>self_p = [(0, - 3, 13), (1 / 2, 100, - 90), (0, 3, 7)],
      self_cam_rot = ((0, 1, 0), (- 1, 0, 0), (0, 0, 1)),
      self_cam_trans = (0, 0, - 10),
      self_screen_dims = (800, 600),
      self_pixel_scale = (1 / 400, 1 / 400)\<rparr>"

text \<open>The skeleton of the specification's example: root 1, branch node 2, leaves 3, 4, 5.\<close>

definition ex_tree :: "(int \<times> int \<times> int) list" where
  "ex_tree = [(1, - 1, 1), (2, 1, 3), (3, 1, 3), (4, 2, 3), (5, 2, 3)]"

section \<open>Properties\<close>

subsection \<open>The name allocator\<close>

lemma digit_char_code: "d < 10 \<Longrightarrow> of_char (digit_char d) = 48 + d"
proof -
  have "\<forall>d \<in> set [0..<10]. of_char (digit_char d) = (48::nat) + d"
    by code_simp
  then show "d < 10 \<Longrightarrow> of_char (digit_char d) = 48 + d"
    by simp
qed

lemma digits_val_snoc: "digits_val (ds @ [c]) = 10 * digits_val ds + (of_char c - 48)"
  by simp

lemma digits_val_dec: "digits_val (dec_digits n) = n"
proof (induction n rule: dec_digits.induct)
  case (1 n)
  show ?case
  proof (cases "n < 10")
    case True
    then show ?thesis by (simp add: digit_char_code)
  next
    case False
    then have "digits_val (dec_digits n) = 10 * digits_val (dec_digits (n div 10)) + (of_char (digit_char (n mod 10)) - 48)"
      by (subst dec_digits.simps) (simp del: dec_digits.simps)
    also have "\<dots> = 10 * (n div 10) + n mod 10"
      using 1 False by (simp add: digit_char_code del: dec_digits.simps)
    finally show ?thesis by simp
  qed
qed

lemma digits_val_zeros: "digits_val (replicate k (CHR ''0'') @ ds) = digits_val ds"
  by (induction k) simp_all

lemma digits_val_fmt: "digits_val (fmt_3d i) = i"
  unfolding fmt_3d_def Let_def by (simp only: digits_val_zeros digits_val_dec)

lemma fmt_3d_inj: "fmt_3d i = fmt_3d j \<Longrightarrow> i = j"
  by (metis digits_val_fmt)

lemma name_loop_run:
  "name \<in> S \<Longrightarrow> i \<le> m \<Longrightarrow> (\<forall>j. i \<le> j \<and> j < m \<longrightarrow> prefix @ ''.'' @ fmt_3d j \<in> S) \<Longrightarrow>
   prefix @ ''.'' @ fmt_3d m \<notin> S \<Longrightarrow>
   name_loop prefix S i name = Some (prefix @ ''.'' @ fmt_3d m)"
proof (induction "m - i" arbitrary: i name)
  case 0
  then have "i = m" by simp
  with 0 show ?case
    by (subst name_loop.simps) (simp add: name_loop.simps)
next
  case (Suc d)
  then have lt: "i < m" by simp
  with Suc.prems have next_in: "prefix @ ''.'' @ fmt_3d i \<in> S" by simp
  have "name_loop prefix S (i + 1) (prefix @ ''.'' @ fmt_3d i) = Some (prefix @ ''.'' @ fmt_3d m)"
    using Suc.hyps(2) lt Suc.prems(3,4) next_in
    by (intro Suc.hyps(1)) auto
  with Suc.prems(1) show ?case
    by (subst name_loop.simps) simp
qed

lemma free_counter_exists:
  assumes "finite S"
  shows "\<exists>m\<ge>1. prefix @ ''.'' @ fmt_3d m \<notin> S"
proof (rule ccontr)
  assume "\<not> ?thesis"
  then have sub: "(\<lambda>m. prefix @ ''.'' @ fmt_3d m) ` {1..} \<subseteq> S" by auto
  have "inj_on (\<lambda>m. prefix @ ''.'' @ fmt_3d m) {1..}"
    by (auto simp: inj_on_def dest: fmt_3d_inj)
  moreover have "infinite {1::nat..}" by (simp add: infinite_Ici)
  ultimately have "infinite ((\<lambda>m. prefix @ ''.'' @ fmt_3d m) ` {1..})"
    by (simp add: finite_image_iff)
  with sub assms show False by (meson finite_subset)
qed

lemma length_fmt_3d: "3 \<le> length (fmt_3d i)"
  unfolding fmt_3d_def Let_def by simp

text \<open>
  Claim C7. \<^verbatim>\<open>GetNonconflitName\<close> returns the prefix itself when the prefix is not in
  the set. When the prefix is in a finite set, the function returns, and its result is
  \<open>prefix + "." + counter\<close> for the least counter \<open>m \<ge> 1\<close> whose name is not in the set;
  the counter is printed with at least three digits, padded with zeros, and reads back
  as \<open>m\<close>. In particular the three examples of the specification hold.
\<close>

theorem GetNonconflitName_spec:
  "(prefix \<notin> S \<longrightarrow> GetNonconflitName prefix S = Some prefix) \<and>
   (finite S \<and> prefix \<in> S \<longrightarrow>
      (\<exists>m\<ge>1. GetNonconflitName prefix S = Some (prefix @ ''.'' @ fmt_3d m) \<and>
             prefix @ ''.'' @ fmt_3d m \<notin> S \<and>
             (\<forall>j. 1 \<le> j \<and> j < m \<longrightarrow> prefix @ ''.'' @ fmt_3d j \<in> S) \<and>
             3 \<le> length (fmt_3d m) \<and> digits_val (fmt_3d m) = m)) \<and>
   GetNonconflitName ''x'' {} = Some ''x'' \<and>
   GetNonconflitName ''x'' {''x''} = Some ''x.001'' \<and>
   GetNonconflitName ''x'' {''x'', ''x.001''} = Some ''x.002''"
proof (intro conjI impI)
  assume "prefix \<notin> S"
  then show "GetNonconflitName prefix S = Some prefix"
    unfolding GetNonconflitName_def by (subst name_loop.simps) simp
next
  assume a: "finite S \<and> prefix \<in> S"
  then obtain m0 where m0: "1 \<le> m0" "prefix @ ''.'' @ fmt_3d m0 \<notin> S"
    using free_counter_exists by blast
  define m where "m = (LEAST m. 1 \<le> m \<and> prefix @ ''.'' @ fmt_3d m \<notin> S)"
  have m: "1 \<le> m \<and> prefix @ ''.'' @ fmt_3d m \<notin> S"
    unfolding m_def using m0 by (rule_tac LeastI [of _ m0]) simp
  have least: "\<And>j. 1 \<le> j \<Longrightarrow> j < m \<Longrightarrow> prefix @ ''.'' @ fmt_3d j \<in> S"
    unfolding m_def using not_less_Least by blast
  have "name_loop prefix S 1 prefix = Some (prefix @ ''.'' @ fmt_3d m)"
    using a m least by (intro name_loop_run) auto
  with m least show "\<exists>m\<ge>1. GetNonconflitName prefix S = Some (prefix @ ''.'' @ fmt_3d m) \<and>
             prefix @ ''.'' @ fmt_3d m \<notin> S \<and>
             (\<forall>j. 1 \<le> j \<and> j < m \<longrightarrow> prefix @ ''.'' @ fmt_3d j \<in> S) \<and>
             3 \<le> length (fmt_3d m) \<and> digits_val (fmt_3d m) = m"
    unfolding GetNonconflitName_def using length_fmt_3d digits_val_fmt by blast
next
  show "GetNonconflitName ''x'' {} = Some ''x''" by code_simp
next
  show "GetNonconflitName ''x'' {''x''} = Some ''x.001''" by code_simp
next
  show "GetNonconflitName ''x'' {''x'', ''x.001''} = Some ''x.002''" by code_simp
qed

theorem GetNonconflitName_spec_witness:
  "finite {''x'', ''x.001''} \<and> ''x'' \<in> {''x'', ''x.001''} \<and>
   (\<exists>m\<ge>1. GetNonconflitName ''x'' {''x'', ''x.001''} = Some (''x'' @ ''.'' @ fmt_3d m) \<and>
          ''x'' @ ''.'' @ fmt_3d m \<notin> {''x'', ''x.001''} \<and>
          (\<forall>j. 1 \<le> j \<and> j < m \<longrightarrow> ''x'' @ ''.'' @ fmt_3d j \<in> {''x'', ''x.001''}))"
  using GetNonconflitName_spec [of "''x''" "{''x'', ''x.001''}"] by auto

subsection \<open>The configuration merge\<close>

text \<open>
  Claim C6. The override gives a \<^verbatim>\<open>dict\<close> for the key \<^verbatim>\<open>number_of_layers\<close>, which is an
  \<^verbatim>\<open>int\<close> leaf of the base. The merge raises \<^verbatim>\<open>TypeError\<close> there: nothing is printed,
  and the key \<^verbatim>\<open>title\<close> that follows is not merged.
\<close>

theorem MergeFullDict_dict_over_leaf:
  "MergeFullDict
     (PDict [(''window'', PDict [(''title'', PStr ''SimpleRayCast''), (''number_of_layers'', PInt 2)])])
     [(''window'', PDict [(''number_of_layers'', PDict [(''n'', PInt 3)]), (''title'', PStr ''T'')])]
     []
   = (Inl TypeError,
      PDict [(''window'', PDict [(''title'', PStr ''SimpleRayCast''), (''number_of_layers'', PInt 2)])],
      [])"
  by (simp add: MergeFullDict_def)

subsection \<open>The skeleton decomposition\<close>

text \<open>
  Claim C1. On the tree with a root and one child the histogram has a single bin, which
  holds 1, so no row starts a filament: the result has no segment and covers no node.
\<close>

theorem SplitSWCTree_two_nodes_uncovered:
  "SplitSWCTree [(1, - 1, 1), (2, 1, 3)] = Some (Inr [])"
  by code_simp

text \<open>
  Claim C3. On the tree with a root and two leaves the result is the segments \<open>[0]\<close> and
  \<open>[0, 1]\<close>, whose only edge is \<open>(0, 1)\<close>: the edge from the root to the last row is in
  no segment.
\<close>

theorem SplitSWCTree_fork_edge_missing:
  "SplitSWCTree [(1, - 1, 1), (2, 1, 3), (3, 1, 3)] = Some (Inr [[0], [0, 1]])"
  by code_simp

text \<open>
  Claim C2 as stated fails: on the example tree the function returns four segments, not
  three, and row 4 (node 5) is in none of them.
\<close>

theorem SplitSWCTree_example_counterexample:
  "SplitSWCTree ex_tree = Some (Inr [[0], [0, 1], [0, 2], [1, 3]]) \<and>
   length [[0::int], [0, 1], [0, 2], [1, 3]] \<noteq> 3 \<and>
   (4::int) \<notin> set (concat [[0], [0, 1], [0, 2], [1, 3]])"
  by code_simp

text \<open>
  Claim C2, as amended. On the example tree the function returns more than three
  segments, in row indices. Among them are \<open>[0]\<close>, \<open>[0, 1]\<close>, \<open>[0, 2]\<close> and \<open>[1, 3]\<close>: the
  segment of the root, of the branch node 2, and of the leaves 3 and 4. The root (row 0)
  and the branch node (row 1) are each in at least two segments, and the leaves 3 and 4
  (rows 2 and 3) are each in exactly one.
\<close>

theorem SplitSWCTree_example:
  "\<exists>segs. SplitSWCTree ex_tree = Some (Inr segs) \<and>
     3 < length segs \<and>
     [0] \<in> set segs \<and> [0, 1] \<in> set segs \<and> [0, 2] \<in> set segs \<and> [1, 3] \<in> set segs \<and>
     2 \<le> length (filter (\<lambda>s. 0 \<in> set s) segs) \<and>
     2 \<le> length (filter (\<lambda>s. 1 \<in> set s) segs) \<and>
     length (filter (\<lambda>s. 2 \<in> set s) segs) = 1 \<and>
     length (filter (\<lambda>s. 3 \<in> set s) segs) = 1"
proof -
  have "SplitSWCTree ex_tree = Some (Inr [[0], [0, 1], [0, 2], [1, 3]])"
    by code_simp
  then show ?thesis by simp
qed

subsection \<open>Transfer-function rescaling\<close>

















text \<open>
  Outside the condition on the order nothing of the kind holds. Rescaling the default
  property, which stands at the scale 40, with the factor 80 moves the third colour
  point past the fourth; the toolkit sorts the nodes, the later writes land on other
  nodes, and the positions are not 80 times the authored \<open>0, 64, 128, 192, 255\<close>.
\<close>

lemma rescale_overtaking_example:
  "map fst (RGBTransferFunction (snd (SetColorScale default_volume_property (Scalar 80))))
     = [0, 5120, 7680, 10240, 20400]"
  by (simp add: default_volume_property_def SetColorScale_def 
        UpdatePropertyOTFScale_def UpdatePropertyCTFScale_def authored_otf_def
        authored_ctf_def np_get_def np_index_def upt_rec SetNodeValue_def)

text \<open>
  Claim C10. Asking for the current scale changes nothing: after \<^verbatim>\<open>GetColorScale\<close>, and
  after either update function called with \<^verbatim>\<open>None\<close>, the property (both curves, the
  authored definitions and the back-reference) is what it was, also when the call raises.
\<close>

theorem GetColorScale_pure:
  "snd (GetColorScale obj_prop) = obj_prop \<and>
   snd (UpdatePropertyOTFScale obj_prop None) = obj_prop \<and>
   snd (UpdatePropertyCTFScale obj_prop None) = obj_prop"
  by (auto simp: GetColorScale_def UpdatePropertyOTFScale_def UpdatePropertyCTFScale_def Let_def
           split: option.splits sum.splits prod.splits)

subsection \<open>The ray picker\<close>

lemma np_argmin_least:
  "xs \<noteq> [] \<Longrightarrow> np_argmin xs < length xs \<and> (\<forall>j<length xs. xs ! np_argmin xs \<le> xs ! j)"
proof (induction xs rule: np_argmin.induct)
  case 1
  then show ?case by simp
next
  case (2 x)
  then show ?case by simp
next
  case (3 x y ys)
  let ?k = "np_argmin (y # ys)"
  from 3 have k: "?k < length (y # ys)" and least: "\<And>j. j < length (y # ys) \<Longrightarrow> (y # ys) ! ?k \<le> (y # ys) ! j"
    by simp_all
  show ?case
  proof (cases "x \<le> (y # ys) ! ?k")
    case True
    have "\<And>j. j < length (x # y # ys) \<Longrightarrow> x \<le> (x # y # ys) ! j"
    proof -
      fix j assume "j < length (x # y # ys)"
      then show "x \<le> (x # y # ys) ! j"
        using True least [of "j - 1"] by (cases j) auto
    qed
    with True show ?thesis by (simp add: Let_def)
  next
    case False
    have "\<And>j. j < length (x # y # ys) \<Longrightarrow> (y # ys) ! ?k \<le> (x # y # ys) ! j"
    proof -
      fix j assume "j < length (x # y # ys)"
      then show "(y # ys) ! ?k \<le> (x # y # ys) ! j"
        using False least [of "j - 1"] by (cases j) auto
    qed
    with False k show ?thesis by (simp add: Let_def)
  qed
qed

lemma dot3_expand:
  "dot3 (sub3 u (scale3 v s)) (sub3 u (scale3 v s)) = dot3 u u - 2 * s * dot3 v u + s\<^sup>2 * dot3 v v"
  by (cases u, cases v) (simp add: algebra_simps power2_eq_square)

lemma norm3_dot3: "norm3 w = sqrt (dot3 w w)"
  by (cases w) (simp add: power2_eq_square)

lemma dot3_self_zero: "dot3 v v = 0 \<Longrightarrow> dot3 v u = 0"
proof (cases v, cases u)
  fix a b c x y z
  assume v: "v = (a, b, c)" and u: "u = (x, y, z)" and "dot3 v v = 0"
  then have "a * a + b * b + c * c = 0" by simp
  then have "a = 0 \<and> b = 0 \<and> c = 0"
    by (metis add_nonneg_eq_0_iff mult_eq_0_iff zero_le_square add_nonneg_nonneg)
  with v u show ?thesis by simp
qed

lemma quad_min:
  fixes c d s uu :: real
  assumes "0 \<le> d" "d = 0 \<longrightarrow> c = 0"
  shows "uu - 2 * (c / d) * c + (c / d)\<^sup>2 * d \<le> uu - 2 * s * c + s\<^sup>2 * d"
proof (cases "d = 0")
  case True
  with assms show ?thesis by simp
next
  case False
  with assms have d: "0 < d" by simp
  have "0 \<le> d * (s - c / d)\<^sup>2" using d by simp
  also have "d * (s - c / d)\<^sup>2 = s\<^sup>2 * d - 2 * s * c + c\<^sup>2 / d"
    using d by (simp add: field_simps power2_eq_square)
  finally have "0 \<le> s\<^sup>2 * d - 2 * s * c + c\<^sup>2 / d" .
  moreover have "- 2 * (c / d) * c + (c / d)\<^sup>2 * d = - (c\<^sup>2 / d)"
    using d by (simp add: field_simps power2_eq_square)
  ultimately show ?thesis by linarith
qed

lemma dot3_nonneg: "0 \<le> dot3 v v"
  by (cases v) simp

lemma ray_dist_least:
  "ray_dist o' v pt \<le> norm3 (sub3 (sub3 pt o') (scale3 v s))"
proof -
  let ?u = "sub3 pt o'"
  have "dot3 (sub3 ?u (scale3 v (ray_t o' v pt))) (sub3 ?u (scale3 v (ray_t o' v pt)))
          \<le> dot3 (sub3 ?u (scale3 v s)) (sub3 ?u (scale3 v s))"
    unfolding dot3_expand ray_t_def
    using dot3_nonneg [of v] dot3_self_zero [of v ?u] by (intro quad_min) auto
  then show ?thesis
    unfolding ray_dist_def norm3_dot3 by simp
qed

lemma np_argmin_first:
  "j < np_argmin xs \<Longrightarrow> xs ! np_argmin xs < xs ! j"
proof (induction xs arbitrary: j rule: np_argmin.induct)
  case 1
  then show ?case by simp
next
  case (2 x)
  then show ?case by simp
next
  case (3 x y ys)
  let ?k = "np_argmin (y # ys)"
  show ?case
  proof (cases "x \<le> (y # ys) ! ?k")
    case True
    with 3 show ?thesis by (simp add: Let_def)
  next
    case False
    then have arg: "np_argmin (x # y # ys) = Suc ?k" by (simp add: Let_def)
    show ?thesis
    proof (cases j)
      case 0
      with False arg show ?thesis by simp
    next
      case (Suc j')
      with "3.prems" arg have "j' < ?k" by simp
      from "3.IH" [OF this] Suc arg show ?thesis by simp
    qed
  qed
qed

lemma sorted_index_less:
  fixes xs :: "nat list"
  assumes "sorted_wrt (<) xs" and "i < length xs" and "j < length xs" and "xs ! i < xs ! j"
  shows "i < j"
proof (rule ccontr)
  assume "\<not> i < j"
  then have "j = i \<or> j < i" by auto
  then show False
  proof
    assume "j = i"
    with assms(4) show False by simp
  next
    assume "j < i"
    with assms(1,2) have "xs ! j < xs ! i" by (simp add: sorted_wrt_iff_nth_less)
    with assms(4) show False by simp
  qed
qed

lemma vector_operations:
  "dot3 (a, b, c) (x, y, z) = a * x + b * y + c * z"
  "sub3 (a, b, c) (x, y, z) = (a - x, b - y, c - z)"
  "scale3 (a, b, c) s = (a * s, b * s, c * s)"
  "norm3 (a, b, c) = sqrt (a\<^sup>2 + b\<^sup>2 + c\<^sup>2)"
  "transpose_times ((a0, a1, a2), (b0, b1, b2), (c0, c1, c2)) (x, y, z) =
     (a0 * x + b0 * y + c0 * z, a1 * x + b1 * y + c1 * z, a2 * x + b2 * y + c2 * z)"
  "mat_times ((a0, a1, a2), (b0, b1, b2), (c0, c1, c2)) (x, y, z) =
     (a0 * x + a1 * y + a2 * z, b0 * x + b1 * y + b2 * z, c0 * x + c1 * y + c2 * z)"
  by simp_all

lemma ray_t_normal: "ray_t o' v pt * dot3 v v = dot3 v (sub3 pt o')"
  using dot3_self_zero [of v "sub3 pt o'"] by (cases "dot3 v v = 0") (simp_all add: ray_t_def)

lemma dot3_residual: "dot3 v (sub3 u (scale3 v t)) = dot3 v u - t * dot3 v v"
  by (cases u, cases v) (simp add: algebra_simps)

lemma ray_residual_perpendicular:
  "dot3 v (sub3 (sub3 pt o') (scale3 v (ray_t o' v pt))) = 0"
  by (simp add: dot3_residual ray_t_normal)

lemma dot3_commute: "dot3 a b = dot3 b a"
  by (cases a, cases b) simp

lemma dot3_transpose_times:
  "dot3 r (transpose_times (r0, r1, r2) (x, y, z)) = x * dot3 r r0 + y * dot3 r r1 + z * dot3 r r2"
  by (cases r, cases r0, cases r1, cases r2) (simp add: algebra_simps)

lemma mat_times_transpose:
  assumes "rows_orthonormal R"
  shows "mat_times R (transpose_times R w) = w"
proof -
  obtain r0 r1 r2 where R: "R = (r0, r1, r2)" by (cases R)
  obtain x y z where w: "w = (x, y, z)" by (cases w)
  from assms R have o: "dot3 r0 r0 = 1" "dot3 r1 r1 = 1" "dot3 r2 r2 = 1"
    "dot3 r0 r1 = 0" "dot3 r0 r2 = 0" "dot3 r1 r2 = 0" by simp_all
  then have o': "dot3 r1 r0 = 0" "dot3 r2 r0 = 0" "dot3 r2 r1 = 0"
    by (simp_all add: dot3_commute)
  show ?thesis
    unfolding R w by (simp add: dot3_transpose_times o o')
qed

lemma mat_times_scale3: "mat_times R (scale3 w c) = scale3 (mat_times R w) c"
  by (cases R, cases w) (auto simp: algebra_simps elim!: dot3.elims)

lemma dot3_adjoint: "dot3 (transpose_times R w) x = dot3 w (mat_times R x)"
proof -
  obtain r0 r1 r2 where R: "R = (r0, r1, r2)" by (cases R)
  show ?thesis
    unfolding R by (cases r0, cases r1, cases r2, cases w, cases x) (simp add: algebra_simps)
qed

lemma ray_origin_camera:
  "rows_orthonormal (self_cam_rot self) \<Longrightarrow>
   mat_times (self_cam_rot self) (ray_origin self) = scale3 (self_cam_trans self) (- 1)"
  by (simp add: ray_origin_def mat_times_scale3 mat_times_transpose)

lemma ray_direction_camera:
  assumes "rows_orthonormal (self_cam_rot self)"
  shows "mat_times (self_cam_rot self) (ray_direction self posxy) =
           ((fst posxy - fst (self_screen_dims self) / 2) * fst (self_pixel_scale self),
            (snd posxy - snd (self_screen_dims self) / 2) * snd (self_pixel_scale self), - 1)"
  using assms by (simp add: ray_direction_def Let_def mat_times_transpose)

lemma ray_direction_length:
  assumes "rows_orthonormal (self_cam_rot self)"
  shows "dot3 (ray_direction self posxy) (ray_direction self posxy) =
           ((fst posxy - fst (self_screen_dims self) / 2) * fst (self_pixel_scale self))\<^sup>2 +
           ((snd posxy - snd (self_screen_dims self) / 2) * snd (self_pixel_scale self))\<^sup>2 + 1"
proof -
  let ?cam = "((fst posxy - fst (self_screen_dims self) / 2) * fst (self_pixel_scale self),
               (snd posxy - snd (self_screen_dims self) / 2) * snd (self_pixel_scale self), - 1 :: real)"
  have v: "ray_direction self posxy = transpose_times (self_cam_rot self) ?cam"
    by (simp add: ray_direction_def Let_def)
  have "dot3 (ray_direction self posxy) (ray_direction self posxy)
          = dot3 ?cam (mat_times (self_cam_rot self) (ray_direction self posxy))"
    by (subst v) (rule dot3_adjoint)
  also have "\<dots> = dot3 ?cam ?cam"
    using ray_direction_camera [OF assms] by simp
  finally show ?thesis by (simp add: power2_eq_square)
qed

text \<open>
  Claim C4. Write \<open>o\<close> for the origin and \<open>v\<close> for the direction of the pick ray, \<open>u\<close> for
  a point minus \<open>o\<close>, and \<open>t\<close>, \<open>d\<close>, \<open>a\<close> for the ray parameter, the distance and the angular
  distance of a point. A point qualifies when \<open>t > 0\<close> (the minimum view distance) and
  \<open>a < 0.01\<close> (the tolerance). \<^verbatim>\<open>PickAt\<close> returns the empty result exactly when no point
  qualifies; otherwise it returns the index and the coordinates of a qualifying point
  whose angular distance is least among the qualifying points, the first of them when
  several are least. The parameter \<open>t\<close> is \<open>(v \<cdot> u) / (v \<cdot> v)\<close>; it solves the normal
  equation \<open>t (v \<cdot> v) = v \<cdot> u\<close> of the least-squares projection, the residual
  \<open>u - v t\<close> is perpendicular to the ray, \<open>d\<close> is the length of that residual and no point
  of the ray's line is nearer, and \<open>a = d / t\<close>. The origin is minus the transposed
  rotation block applied to the translation, and the direction is the transposed
  rotation block applied to the pixel's point on the plane \<open>z = - 1\<close> of the camera; when
  the rotation block is a rotation, the view transform takes \<open>o\<close> to the camera's own
  origin and \<open>v\<close> to that point of the plane. The vector operations of the statement are
  the componentwise ones, as its last part spells out.
\<close>

theorem PickAt_spec:
  "let p = self_p self;
       o' = ray_origin self;
       v = ray_direction self posxy;
       cam = ((fst posxy - fst (self_screen_dims self) / 2) * fst (self_pixel_scale self),
              (snd posxy - snd (self_screen_dims self) / 2) * snd (self_pixel_scale self), - 1);
       u = (\<lambda>i. sub3 (p ! i) o');
       t = (\<lambda>i. ray_t o' v (p ! i));
       d = (\<lambda>i. ray_dist o' v (p ! i));
       a = (\<lambda>i. ray_angle_dist o' v (p ! i));
       ok = (\<lambda>i. i < length p \<and> 0 < t i \<and> a i < 1 / 100)
   in (PickAt self posxy = NoSelection \<longleftrightarrow> (\<forall>i. \<not> ok i)) \<and>
      (\<forall>k q. PickAt self posxy = Selected k q \<longrightarrow>
         ok k \<and> q = p ! k \<and> (\<forall>j. ok j \<longrightarrow> a k \<le> a j) \<and>
         (\<forall>j<k. ok j \<longrightarrow> a k < a j)) \<and>
      (\<forall>i. t i = dot3 v (u i) / dot3 v v \<and>
           t i * dot3 v v = dot3 v (u i) \<and>
           dot3 v (sub3 (u i) (scale3 v (t i))) = 0 \<and>
           d i = norm3 (sub3 (u i) (scale3 v (t i))) \<and>
           (\<forall>s. d i \<le> norm3 (sub3 (u i) (scale3 v s))) \<and>
           a i = d i / t i) \<and>
      o' = scale3 (transpose_times (self_cam_rot self) (self_cam_trans self)) (- 1) \<and>
      v = transpose_times (self_cam_rot self) cam \<and>
      (rows_orthonormal (self_cam_rot self) \<longrightarrow>
         mat_times (self_cam_rot self) o' = scale3 (self_cam_trans self) (- 1) \<and>
         mat_times (self_cam_rot self) v = cam \<and>
         dot3 v v = (fst cam)\<^sup>2 + (fst (snd cam))\<^sup>2 + 1) \<and>
      (\<forall>a b c x y z s a0 a1 a2 b0 b1 b2 c0 c1 c2.
         dot3 (a, b, c) (x, y, z) = a * x + b * y + c * z \<and>
         sub3 (a, b, c) (x, y, z) = (a - x, b - y, c - z) \<and>
         scale3 (a, b, c) s = (a * s, b * s, c * s) \<and>
         norm3 (a, b, c) = sqrt (a\<^sup>2 + b\<^sup>2 + c\<^sup>2) \<and>
         transpose_times ((a0, a1, a2), (b0, b1, b2), (c0, c1, c2)) (x, y, z) =
           (a0 * x + b0 * y + c0 * z, a1 * x + b1 * y + c1 * z, a2 * x + b2 * y + c2 * z) \<and>
         mat_times ((a0, a1, a2), (b0, b1, b2), (c0, c1, c2)) (x, y, z) =
           (a0 * x + a1 * y + a2 * z, b0 * x + b1 * y + b2 * z, c0 * x + c1 * y + c2 * z))"
proof -
  let ?p = "self_p self"
  let ?o = "ray_origin self"
  let ?v = "ray_direction self posxy"
  let ?px = "(fst posxy - fst (self_screen_dims self) / 2) * fst (self_pixel_scale self)"
  let ?py = "(snd posxy - snd (self_screen_dims self) / 2) * snd (self_pixel_scale self)"
  let ?t = "\<lambda>i. ray_t ?o ?v (?p ! i)"
  let ?a = "\<lambda>i. ray_angle_dist ?o ?v (?p ! i)"
  let ?ok = "\<lambda>i. i < length ?p \<and> 0 < ?t i \<and> ?a i < 1 / 100"
  define ID where "ID = filter (\<lambda>i. map (ray_t ?o ?v) ?p ! i > 0 \<and> map (ray_angle_dist ?o ?v) ?p ! i < 1 / 100) [0..<length ?p]"
  let ?ads = "map (\<lambda>i. map (ray_angle_dist ?o ?v) ?p ! i) ID"
  let ?m = "np_argmin ?ads"
  have ID_set: "set ID = {i. ?ok i}"
    unfolding ID_def by auto
  have sorted_ID: "sorted_wrt (<) ID"
    unfolding ID_def by (simp add: sorted_wrt_filter)
  have pick: "PickAt self posxy = (if length ID > 0 then Selected (ID ! ?m) (?p ! (ID ! ?m)) else NoSelection)"
    unfolding PickAt_def Let_def ID_def by simp
  have none: "PickAt self posxy = NoSelection \<longleftrightarrow> (\<forall>i. \<not> ?ok i)"
  proof (cases "ID = []")
    case True
    with ID_set pick show ?thesis by auto
  next
    case False
    then obtain i where "i \<in> set ID" by (cases ID) auto
    with ID_set have "?ok i" by simp
    with False pick show ?thesis by auto
  qed
  have some: "?ok k \<and> q = ?p ! k \<and> (\<forall>j. ?ok j \<longrightarrow> ?a k \<le> ?a j) \<and> (\<forall>j<k. ?ok j \<longrightarrow> ?a k < ?a j)"
    if sel: "PickAt self posxy = Selected k q" for k q
  proof -
    from sel pick have ne: "ID \<noteq> []" by (auto split: if_splits)
    with sel pick have k: "k = ID ! ?m" and q: "q = ?p ! k" by auto
    from ne have "?ads \<noteq> []" by simp
    from np_argmin_least [OF this] have m: "?m < length ID" and least0: "\<forall>j<length ?ads. ?ads ! ?m \<le> ?ads ! j"
      by auto
    have least: "?ads ! ?m \<le> ?ads ! j" if "j < length ID" for j
      using least0 that by simp
    from m k have "k \<in> set ID" by simp
    with ID_set have okk: "?ok k" by simp
    have le: "?a k \<le> ?a j" if okj: "?ok j" for j
    proof -
      from okj ID_set have "j \<in> set ID" by simp
      then obtain j' where j': "j' < length ID" "ID ! j' = j" by (auto simp: in_set_conv_nth)
      from least [OF j'(1)] m j' k have "map (ray_angle_dist ?o ?v) ?p ! k \<le> map (ray_angle_dist ?o ?v) ?p ! j"
        by simp
      moreover have "k < length ?p" "j < length ?p" using okk okj by simp_all
      ultimately show ?thesis by simp
    qed
    have less: "?a k < ?a j" if okj: "?ok j" and jk: "j < k" for j
    proof -
      from okj ID_set have "j \<in> set ID" by simp
      then obtain j' where j': "j' < length ID" "ID ! j' = j" by (auto simp: in_set_conv_nth)
      have "ID ! j' < ID ! ?m" using j'(2) k jk by simp
      with sorted_ID j'(1) m have "j' < ?m" by (rule sorted_index_less)
      then have "?ads ! ?m < ?ads ! j'" by (rule np_argmin_first)
      with m j' k have "map (ray_angle_dist ?o ?v) ?p ! k < map (ray_angle_dist ?o ?v) ?p ! j"
        by simp
      moreover have "k < length ?p" "j < length ?p" using okk okj by simp_all
      ultimately show ?thesis by simp
    qed
    from okk q le less show ?thesis by blast
  qed
  have sel_all: "\<forall>k q. PickAt self posxy = Selected k q \<longrightarrow>
         ?ok k \<and> q = ?p ! k \<and> (\<forall>j. ?ok j \<longrightarrow> ?a k \<le> ?a j) \<and> (\<forall>j<k. ?ok j \<longrightarrow> ?a k < ?a j)"
    using some by blast
  have geo: "?t i = dot3 ?v (sub3 (?p ! i) ?o) / dot3 ?v ?v \<and>
             ?t i * dot3 ?v ?v = dot3 ?v (sub3 (?p ! i) ?o) \<and>
             dot3 ?v (sub3 (sub3 (?p ! i) ?o) (scale3 ?v (?t i))) = 0 \<and>
             ray_dist ?o ?v (?p ! i) = norm3 (sub3 (sub3 (?p ! i) ?o) (scale3 ?v (?t i))) \<and>
             (\<forall>s. ray_dist ?o ?v (?p ! i) \<le> norm3 (sub3 (sub3 (?p ! i) ?o) (scale3 ?v s))) \<and>
             ?a i = ray_dist ?o ?v (?p ! i) / ?t i" for i
  proof (intro conjI)
    show "?t i = dot3 ?v (sub3 (?p ! i) ?o) / dot3 ?v ?v"
      by (simp add: ray_t_def)
    show "?t i * dot3 ?v ?v = dot3 ?v (sub3 (?p ! i) ?o)"
      by (simp add: ray_t_normal)
    show "dot3 ?v (sub3 (sub3 (?p ! i) ?o) (scale3 ?v (?t i))) = 0"
      by (simp add: ray_residual_perpendicular)
    show "ray_dist ?o ?v (?p ! i) = norm3 (sub3 (sub3 (?p ! i) ?o) (scale3 ?v (?t i)))"
      by (simp add: ray_dist_def)
    show "\<forall>s. ray_dist ?o ?v (?p ! i) \<le> norm3 (sub3 (sub3 (?p ! i) ?o) (scale3 ?v s))"
      using ray_dist_least by blast
    show "?a i = ray_dist ?o ?v (?p ! i) / ?t i"
      by (simp add: ray_angle_dist_def)
  qed
  then have geo_all: "\<forall>i. ?t i = dot3 ?v (sub3 (?p ! i) ?o) / dot3 ?v ?v \<and>
             ?t i * dot3 ?v ?v = dot3 ?v (sub3 (?p ! i) ?o) \<and>
             dot3 ?v (sub3 (sub3 (?p ! i) ?o) (scale3 ?v (?t i))) = 0 \<and>
             ray_dist ?o ?v (?p ! i) = norm3 (sub3 (sub3 (?p ! i) ?o) (scale3 ?v (?t i))) \<and>
             (\<forall>s. ray_dist ?o ?v (?p ! i) \<le> norm3 (sub3 (sub3 (?p ! i) ?o) (scale3 ?v s))) \<and>
             ?a i = ray_dist ?o ?v (?p ! i) / ?t i"
    by (rule allI)
  have org: "?o = scale3 (transpose_times (self_cam_rot self) (self_cam_trans self)) (- 1)"
    by (simp add: ray_origin_def)
  have dir: "?v = transpose_times (self_cam_rot self) (?px, ?py, - 1)"
    by (simp add: ray_direction_def Let_def)
  have cam: "rows_orthonormal (self_cam_rot self) \<longrightarrow>
         mat_times (self_cam_rot self) ?o = scale3 (self_cam_trans self) (- 1) \<and>
         mat_times (self_cam_rot self) ?v = (?px, ?py, - 1) \<and>
         dot3 ?v ?v = ?px\<^sup>2 + ?py\<^sup>2 + 1"
    by (simp add: ray_origin_camera ray_direction_camera ray_direction_length)
  have prim: "\<forall>a b c x y z s a0 a1 a2 b0 b1 b2 c0 c1 c2.
         dot3 (a, b, c) (x, y, z) = a * x + b * y + c * z \<and>
         sub3 (a, b, c) (x, y, z) = (a - x, b - y, c - z) \<and>
         scale3 (a, b, c) s = (a * s, b * s, c * s) \<and>
         norm3 (a, b, c) = sqrt (a\<^sup>2 + b\<^sup>2 + c\<^sup>2) \<and>
         transpose_times ((a0, a1, a2), (b0, b1, b2), (c0, c1, c2)) (x, y, z) =
           (a0 * x + b0 * y + c0 * z, a1 * x + b1 * y + c1 * z, a2 * x + b2 * y + c2 * z) \<and>
         mat_times ((a0, a1, a2), (b0, b1, b2), (c0, c1, c2)) (x, y, z) =
           (a0 * x + a1 * y + a2 * z, b0 * x + b1 * y + b2 * z, c0 * x + c1 * y + c2 * z)"
    by simp
  show ?thesis
    unfolding Let_def fst_conv snd_conv
    by (intro conjI) (fact none, fact sel_all, fact geo_all, fact org, fact dir, fact cam, fact prim)
qed

lemma norm3_first_axis: "norm3 (x, 0, 0) = \<bar>x\<bar>"
  by simp

lemma ex_picker_origin: "ray_origin ex_picker = (0, 0, 10)"
  by (simp add: ex_picker_def ray_origin_def)

lemma ex_picker_direction: "ray_direction ex_picker (800, 300) = (0, 1, - 1)"
  by (simp add: ex_picker_def ray_direction_def)

lemma ex_picker_t:
  "ray_t (0, 0, 10) (0, 1, - 1) (0, - 3, 13) = - 3"
  "ray_t (0, 0, 10) (0, 1, - 1) (1 / 2, 100, - 90) = 100"
  "ray_t (0, 0, 10) (0, 1, - 1) (0, 3, 7) = 3"
  by (simp_all add: ray_t_def)

lemma ex_picker_dist:
  "ray_dist (0, 0, 10) (0, 1, - 1) (1 / 2, 100, - 90) = 1 / 2"
  "ray_dist (0, 0, 10) (0, 1, - 1) (0, 3, 7) = 0"
proof -
  have "ray_dist (0, 0, 10) (0, 1, - 1) (1 / 2, 100, - 90) = norm3 (1 / 2, 0, 0)"
    by (simp add: ray_dist_def ex_picker_t)
  then show "ray_dist (0, 0, 10) (0, 1, - 1) (1 / 2, 100, - 90) = 1 / 2"
    by (simp only: norm3_first_axis)
  show "ray_dist (0, 0, 10) (0, 1, - 1) (0, 3, 7) = 0"
    by (simp add: ray_dist_def ex_picker_t)
qed

lemma ex_picker_angle:
  "ray_angle_dist (0, 0, 10) (0, 1, - 1) (1 / 2, 100, - 90) = 1 / 200"
  "ray_angle_dist (0, 0, 10) (0, 1, - 1) (0, 3, 7) = 0"
  by (simp_all add: ray_angle_dist_def ex_picker_dist ex_picker_t)

lemma ex_picker_indices: "[0..<length (self_p ex_picker)] = [0, 1, 2]"
  by (simp add: ex_picker_def upt_rec)

lemma ex_picker_points: "self_p ex_picker = [(0, - 3, 13), (1 / 2, 100, - 90), (0, 3, 7)]"
  by (simp add: ex_picker_def)

lemma ex_picker_pick: "PickAt ex_picker (800, 300) = Selected 2 (0, 3, 7)"
  unfolding PickAt_def Let_def ex_picker_indices ex_picker_origin ex_picker_direction ex_picker_points
  by (simp add: ex_picker_t ex_picker_angle)

lemma ex_picker_rotation: "rows_orthonormal (self_cam_rot ex_picker)"
  by (simp add: ex_picker_def)

theorem PickAt_spec_witness:
  "rows_orthonormal (self_cam_rot ex_picker) \<and>
   PickAt ex_picker (800, 300) = Selected 2 (0, 3, 7) \<and>
   2 < length (self_p ex_picker) \<and>
   0 < ray_t (ray_origin ex_picker) (ray_direction ex_picker (800, 300)) (self_p ex_picker ! 2) \<and>
   ray_angle_dist (ray_origin ex_picker) (ray_direction ex_picker (800, 300)) (self_p ex_picker ! 2) < 1 / 100 \<and>
   (0, 3, 7) = self_p ex_picker ! 2 \<and>
   mat_times (self_cam_rot ex_picker) (ray_direction ex_picker (800, 300)) = (1, 0, - 1) \<and>
   mat_times (self_cam_rot ex_picker) (ray_origin ex_picker) = (0, 0, 10)"
proof -
  have sel: "PickAt ex_picker (800, 300) = Selected 2 (0, 3, 7)"
    by (rule ex_picker_pick)
  have rot: "rows_orthonormal (self_cam_rot ex_picker)"
    by (rule ex_picker_rotation)
  note spec = PickAt_spec [of ex_picker "(800, 300)", unfolded Let_def fst_conv snd_conv]
  note selected = spec [THEN conjunct2, THEN conjunct1, rule_format, OF sel]
  note camera = spec [THEN conjunct2, THEN conjunct2, THEN conjunct2, THEN conjunct2,
                      THEN conjunct2, THEN conjunct1, rule_format, OF rot]
  from selected have part1: "2 < length (self_p ex_picker) \<and>
   0 < ray_t (ray_origin ex_picker) (ray_direction ex_picker (800, 300)) (self_p ex_picker ! 2) \<and>
   ray_angle_dist (ray_origin ex_picker) (ray_direction ex_picker (800, 300)) (self_p ex_picker ! 2) < 1 / 100 \<and>
   (0, 3, 7) = self_p ex_picker ! 2"
    by blast
  from camera have part2: "mat_times (self_cam_rot ex_picker) (ray_direction ex_picker (800, 300)) = (1, 0, - 1) \<and>
   mat_times (self_cam_rot ex_picker) (ray_origin ex_picker) = (0, 0, 10)"
    by (simp add: ex_picker_def)
  from rot sel part1 part2 show ?thesis by blast
qed

subsection \<open>The point set holder\<close>

lemma rectangular_nth:
  "rectangular A \<Longrightarrow> r < length A \<Longrightarrow> length (A ! r) = length (hd A)"
  by (simp add: rectangular_def)

lemma map2_append_rows:
  assumes "rectangular A" and "rectangular B" and "length A = length B"
  shows "\<forall>r\<in>set (map2 (@) A B). length r = length (hd A) + length (hd B)"
proof
  fix r assume "r \<in> set (map2 (@) A B)"
  then obtain i where i: "i < length A" "r = A ! i @ B ! i"
    using assms(3) by (auto simp: in_set_conv_nth)
  then show "length r = length (hd A) + length (hd B)"
    using assms by (simp add: rectangular_nth)
qed

lemma map2_append_old_columns:
  assumes "rectangular A" and "length A = length B" and "j < length (hd A)"
  shows "map (\<lambda>r. r ! j) (map2 (@) A B) = map (\<lambda>r. r ! j) A"
  using assms by (intro nth_equalityI) (simp_all add: nth_append rectangular_nth)

lemma map2_append_new_columns:
  assumes "rectangular A" and "length A = length B"
  shows "map (\<lambda>r. r ! (length (hd A) + j)) (map2 (@) A B) = map (\<lambda>r. r ! j) B"
  using assms by (intro nth_equalityI) (simp_all add: nth_append rectangular_nth)

text \<open>
  Claim C8 as stated fails: after points are added to the empty holder under the name
  \<^verbatim>\<open>swc\<close>, the name-to-range mapping is still empty.
\<close>

theorem AddPoints_no_range_counterexample:
  "AddPoints (PointSetHolder_init :: (nat \<times> nat) PointSetHolder) [[1, 4], [2, 5], [3, 6]] ''swc''
     = Inr \<lparr>self_points = [[1, 4], [2, 5], [3, 6]], self_range_map = Map.empty\<rparr> \<and>
   self_range_map \<lparr>self_points = [[1, 4], [2, 5], [3, 6]], self_range_map = (Map.empty :: string \<rightharpoonup> nat \<times> nat)\<rparr> ''swc'' = None"
  by (simp add: AddPoints_def PointSetHolder_init_def rectangular_def)

text \<open>
  Claim C8, as amended. When the given rows form a two-dimensional array with as many
  rows as the holder's, the call succeeds, every row of the holder is extended by the
  matching row of the given array, so that the sequence of points (the columns) is the
  existing points followed by the given points in order, and the name-to-range mapping
  is left as it was. Otherwise the call raises \<^verbatim>\<open>ValueError\<close>.
\<close>

theorem AddPoints_appends:
  "((\<forall>r\<in>set points. length r = length (hd points)) \<and> length points = length (self_points self) \<longrightarrow>
      (\<exists>self'. AddPoints self points name = Inr self' \<and>
         length (self_points self') = length (self_points self) \<and>
         (\<forall>r < length (self_points self). self_points self' ! r = self_points self ! r @ points ! r) \<and>
         ((\<forall>r\<in>set (self_points self). length r = length (hd (self_points self))) \<longrightarrow>
            (\<forall>r\<in>set (self_points self'). length r = length (hd (self_points self)) + length (hd points)) \<and>
            (\<forall>j < length (hd (self_points self)).
               map (\<lambda>r. r ! j) (self_points self') = map (\<lambda>r. r ! j) (self_points self)) \<and>
            (\<forall>j < length (hd points).
               map (\<lambda>r. r ! (length (hd (self_points self)) + j)) (self_points self') = map (\<lambda>r. r ! j) points)) \<and>
         self_range_map self' = self_range_map self)) \<and>
   (\<not> ((\<forall>r\<in>set points. length r = length (hd points)) \<and> length points = length (self_points self)) \<longrightarrow>
      AddPoints self points name = Inl ValueError)"
proof (intro conjI impI)
  assume h: "(\<forall>r\<in>set points. length r = length (hd points)) \<and> length points = length (self_points self)"
  then have rp: "rectangular points" and len: "length (self_points self) = length points"
    by (simp_all add: rectangular_def)
  let ?self' = "self\<lparr>self_points := map2 (@) (self_points self) points\<rparr>"
  have add: "AddPoints self points name = Inr ?self'"
    using rp len by (simp add: AddPoints_def)
  have rect: "(\<forall>r\<in>set (self_points ?self'). length r = length (hd (self_points self)) + length (hd points)) \<and>
            (\<forall>j < length (hd (self_points self)).
               map (\<lambda>r. r ! j) (self_points ?self') = map (\<lambda>r. r ! j) (self_points self)) \<and>
            (\<forall>j < length (hd points).
               map (\<lambda>r. r ! (length (hd (self_points self)) + j)) (self_points ?self') = map (\<lambda>r. r ! j) points)"
    if "\<forall>r\<in>set (self_points self). length r = length (hd (self_points self))"
  proof -
    from that have rs: "rectangular (self_points self)" by (simp add: rectangular_def)
    show ?thesis
      using map2_append_rows [OF rs rp len] map2_append_old_columns [OF rs len]
        map2_append_new_columns [OF rs len]
      by simp
  qed
  show "\<exists>self'. AddPoints self points name = Inr self' \<and>
         length (self_points self') = length (self_points self) \<and>
         (\<forall>r < length (self_points self). self_points self' ! r = self_points self ! r @ points ! r) \<and>
         ((\<forall>r\<in>set (self_points self). length r = length (hd (self_points self))) \<longrightarrow>
            (\<forall>r\<in>set (self_points self'). length r = length (hd (self_points self)) + length (hd points)) \<and>
            (\<forall>j < length (hd (self_points self)).
               map (\<lambda>r. r ! j) (self_points self') = map (\<lambda>r. r ! j) (self_points self)) \<and>
            (\<forall>j < length (hd points).
               map (\<lambda>r. r ! (length (hd (self_points self)) + j)) (self_points self') = map (\<lambda>r. r ! j) points)) \<and>
         self_range_map self' = self_range_map self"
  proof (intro exI [of _ ?self'] conjI)
    show "AddPoints self points name = Inr ?self'" by (rule add)
    show "length (self_points ?self') = length (self_points self)" using len by simp
    show "\<forall>r < length (self_points self). self_points ?self' ! r = self_points self ! r @ points ! r"
      using len by simp
    show "(\<forall>r\<in>set (self_points self). length r = length (hd (self_points self))) \<longrightarrow>
            (\<forall>r\<in>set (self_points ?self'). length r = length (hd (self_points self)) + length (hd points)) \<and>
            (\<forall>j < length (hd (self_points self)).
               map (\<lambda>r. r ! j) (self_points ?self') = map (\<lambda>r. r ! j) (self_points self)) \<and>
            (\<forall>j < length (hd points).
               map (\<lambda>r. r ! (length (hd (self_points self)) + j)) (self_points ?self') = map (\<lambda>r. r ! j) points)"
      using rect by blast
    show "self_range_map ?self' = self_range_map self" by simp
  qed
next
  assume "\<not> ((\<forall>r\<in>set points. length r = length (hd points)) \<and> length points = length (self_points self))"
  then show "AddPoints self points name = Inl ValueError"
    by (auto simp: AddPoints_def rectangular_def)
qed

theorem AddPoints_appends_witness:
  "map length [[4, 7], [5, 8], [6, 9::real]] = [2, 2, 2] \<and>
   length [[4, 7], [5, 8], [6, 9::real]]
     = length (self_points \<lparr>self_points = [[1], [2], [3]], self_range_map = (Map.empty :: string \<rightharpoonup> nat \<times> nat)\<rparr>) \<and>
   map length [[1], [2], [3::real]] = [1, 1, 1] \<and>
   (\<exists>self'. AddPoints \<lparr>self_points = [[1], [2], [3]], self_range_map = (Map.empty :: string \<rightharpoonup> nat \<times> nat)\<rparr>
              [[4, 7], [5, 8], [6, 9]] ''swc'' = Inr self' \<and>
      self_points self' = [[1, 4, 7], [2, 5, 8], [3, 6, 9]] \<and>
      map (\<lambda>r. r ! 0) (self_points self') = [1, 2, 3] \<and>
      map (\<lambda>r. r ! 1) (self_points self') = [4, 5, 6] \<and>
      map (\<lambda>r. r ! 2) (self_points self') = [7, 8, 9] \<and>
      self_range_map self' ''swc'' = None)"
  using AddPoints_appends [of "[[4, 7], [5, 8], [6, 9]]"
          "\<lparr>self_points = [[1], [2], [3]], self_range_map = (Map.empty :: string \<rightharpoonup> nat \<times> nat)\<rparr>" "''swc''"]
  by (simp add: AddPoints_def rectangular_def)

text \<open>Rows of unequal length are refused.\<close>

lemma AddPoints_ragged: "AddPoints (PointSetHolder_init :: nat PointSetHolder) [[0], [], []] ''swc'' = Inl ValueError"
  by (simp add: AddPoints_def PointSetHolder_init_def rectangular_def)

subsection \<open>Object removal\<close>

text \<open>
  Claim C9. Removing an object that is in the registry raises \<^verbatim>\<open>NameError\<close> at
  \<^verbatim>\<open>re.RemoveActor(obj)\<close>, before the \<^verbatim>\<open>del\<close>: the entry is still there afterwards. The
  call to \<^verbatim>\<open>GetMainRenderer\<close> has set the main renderer's name by then.
\<close>

theorem RemoveObjects_present_raises:
  "RemoveObjects
     \<lparr>scene_objects = [''swc'' \<mapsto> (7::nat)], renderers = [(''0'', 0::nat)],
      main_renderer_name = None, printed = []\<rparr> ''swc''
   = (Inl NameError,
      \<lparr>scene_objects = [''swc'' \<mapsto> 7], renderers = [(''0'', 0)],
       main_renderer_name = Some ''0'', printed = []\<rparr>)"
  by (simp add: RemoveObjects_def GetMainRenderer_def global_re_def)

end
